theory Spec2Isabelle
  imports Main "HOL-Library.Sublist"
begin

section \<open>Strings: joining fields, decimal rendering\<close>

text \<open>
  The map worker (\<^verbatim>\<open>data_retrieval/map_worker.py\<close>) builds every payload from Python
  strings. A Python \<^verbatim>\<open>str\<close> is modelled as a \<^typ>\<open>string\<close>.
\<close>

definition newline :: char where
  "newline = CHR 0x0A"

text \<open>\<^verbatim>\<open>sep.join(xs)\<close>\<close>

fun str_join :: "string \<Rightarrow> string list \<Rightarrow> string" where
  "str_join sep [] = []"
| "str_join sep [x] = x"
| "str_join sep (x # y # ys) = x @ sep @ str_join sep (y # ys)"

text \<open>
  The loop of \<^verbatim>\<open>update_map_data\<close>:
  \<^verbatim>\<open>
  county_results = ""
  for row in csv_data:
      county_results += (', '.join(row) + '\n')
  \<close>
  The second argument is the value of \<^verbatim>\<open>county_results\<close> on entry to the iteration.
\<close>

fun county_results_loop :: "string list list \<Rightarrow> string \<Rightarrow> string" where
  "county_results_loop [] county_results = county_results"
| "county_results_loop (row # csv_data) county_results =
     county_results_loop csv_data (county_results @ (str_join '', '' row @ [newline]))"

definition county_results_of :: "string list list \<Rightarrow> string" where
  "county_results_of csv_data = county_results_loop csv_data []"

text \<open>
  The payload as the specification words it: every row's fields joined by \<open>", "\<close>, every
  row followed by a newline, rows in their order.
\<close>

definition spec_payload :: "string list list \<Rightarrow> string" where
  "spec_payload rows = concat (map (\<lambda>row. str_join '', '' row @ [newline]) rows)"

text \<open>Reading a payload back: the text before each newline, in order.\<close>

fun payload_lines :: "string \<Rightarrow> string \<Rightarrow> string list" where
  "payload_lines [] cur = (if cur = [] then [] else [cur])"
| "payload_lines (c # cs) cur =
     (if c = newline then cur # payload_lines cs [] else payload_lines cs (cur @ [c]))"

definition no_newline :: "string list list \<Rightarrow> bool" where
  "no_newline rows = list_all (list_all (\<lambda>field. newline \<notin> set field)) rows"

section \<open>Timestamps\<close>

text \<open>
  \<^verbatim>\<open>datetime.now()\<close> yields a \<^verbatim>\<open>datetime\<close>; its fields range as Python's type
  prescribes (years 1 to 9999).
\<close>

record datetime =
  dt_year :: nat
  dt_month :: nat
  dt_day :: nat
  dt_hour :: nat
  dt_minute :: nat
  dt_second :: nat


definition digit_char :: "nat \<Rightarrow> char" where
  "digit_char n = char_of (48 + n mod 10)"

fun decimal :: "nat \<Rightarrow> string" where
  "decimal n = (if n < 10 then [digit_char n] else decimal (n div 10) @ [digit_char n])"

definition zero_padded :: "nat \<Rightarrow> nat \<Rightarrow> string" where
  "zero_padded width n = replicate (width - length (decimal n)) (CHR ''0'') @ decimal n"

text \<open>
  \<^verbatim>\<open>now.strftime("%m/%d/%Y, %H:%M:%S %p")\<close>: month, day, hour (24-hour clock), minute and
  second as two digits, the year with century as four digits, and the locale's
  AM or PM mark (the process never changes its locale, so the C locale's marks).
\<close>

definition am_pm :: "datetime \<Rightarrow> string" where
  "am_pm t = (if dt_hour t < 12 then ''AM'' else ''PM'')"

definition strftime :: "datetime \<Rightarrow> string" where
  "strftime t =
     zero_padded 2 (dt_month t) @ ''/'' @ zero_padded 2 (dt_day t) @ ''/'' @
     zero_padded 4 (dt_year t) @ '', '' @
     zero_padded 2 (dt_hour t) @ '':'' @ zero_padded 2 (dt_minute t) @ '':'' @
     zero_padded 2 (dt_second t) @ '' '' @ am_pm t"






section \<open>The CSV reader\<close>

text \<open>
  \<^verbatim>\<open>csv.reader(csv_file, delimiter=',')\<close> with the default dialect: quote character
  \<open>"\<close>, doubled quotes inside quoted fields, no escape character, not strict. The
  reader is the state machine of the \<^verbatim>\<open>csv\<close> module; an input symbol is a character of
  the line, or \<open>None\<close> for the end-of-line mark the reader feeds itself after each
  line. The states for escape characters cannot be entered under this dialect and are
  left out; the module's limit on the length of a field (131072 characters) is not
  modelled.
\<close>

definition carriage_return :: char where
  "carriage_return = CHR 0x0D"

definition delimiter :: char where
  "delimiter = CHR '',''"

definition quotechar :: char where
  "quotechar = CHR 0x22"

datatype parser_state =
  START_RECORD | START_FIELD | IN_FIELD | IN_QUOTED_FIELD | QUOTE_IN_QUOTED_FIELD | EAT_CRNL

datatype exn =
    KeyError string
  | TypeError
  | JSONDecodeError
  | HTTPError nat string
  | FileNotFoundError string
  | NoSectionError string
  | ValueError
  | CsvError

record reader =
  rd_state :: parser_state
  rd_field :: string
  rd_fields :: "string list"

definition parse_reset :: reader where
  "parse_reset = \<lparr>rd_state = START_RECORD, rd_field = [], rd_fields = []\<rparr>"

definition parse_save_field :: "reader \<Rightarrow> reader" where
  "parse_save_field r = r\<lparr>rd_fields := rd_fields r @ [rd_field r], rd_field := []\<rparr>"

definition parse_add_char :: "char \<Rightarrow> reader \<Rightarrow> reader" where
  "parse_add_char c r = r\<lparr>rd_field := rd_field r @ [c]\<rparr>"

definition end_of_line :: "char option \<Rightarrow> bool" where
  "end_of_line c = (c = Some newline \<or> c = Some carriage_return \<or> c = None)"

definition after_line_end :: "char option \<Rightarrow> parser_state" where
  "after_line_end c = (if c = None then START_RECORD else EAT_CRNL)"

text \<open>The case \<^verbatim>\<open>START_FIELD\<close> of \<^verbatim>\<open>parse_process_char\<close>.\<close>

definition start_field :: "reader \<Rightarrow> char option \<Rightarrow> reader" where
  "start_field r c =
     (if end_of_line c then (parse_save_field r)\<lparr>rd_state := after_line_end c\<rparr>
      else if c = Some quotechar then r\<lparr>rd_state := IN_QUOTED_FIELD\<rparr>
      else if c = Some delimiter then parse_save_field r
      else (case c of None \<Rightarrow> r | Some ch \<Rightarrow> (parse_add_char ch r)\<lparr>rd_state := IN_FIELD\<rparr>))"

definition parse_process_char :: "reader \<Rightarrow> char option \<Rightarrow> exn + reader" where
  "parse_process_char r c =
     (case rd_state r of
        START_RECORD \<Rightarrow>
          (if c = None then Inr r
           else if c = Some newline \<or> c = Some carriage_return then Inr (r\<lparr>rd_state := EAT_CRNL\<rparr>)
           else Inr (start_field (r\<lparr>rd_state := START_FIELD\<rparr>) c))
      | START_FIELD \<Rightarrow> Inr (start_field r c)
      | IN_FIELD \<Rightarrow>
          (if end_of_line c then Inr ((parse_save_field r)\<lparr>rd_state := after_line_end c\<rparr>)
           else if c = Some delimiter then Inr ((parse_save_field r)\<lparr>rd_state := START_FIELD\<rparr>)
           else (case c of None \<Rightarrow> Inr r | Some ch \<Rightarrow> Inr (parse_add_char ch r)))
      | IN_QUOTED_FIELD \<Rightarrow>
          (case c of
             None \<Rightarrow> Inr r
           | Some ch \<Rightarrow>
               if ch = quotechar then Inr (r\<lparr>rd_state := QUOTE_IN_QUOTED_FIELD\<rparr>)
               else Inr (parse_add_char ch r))
      | QUOTE_IN_QUOTED_FIELD \<Rightarrow>
          (if c = Some quotechar then Inr ((parse_add_char quotechar r)\<lparr>rd_state := IN_QUOTED_FIELD\<rparr>)
           else if c = Some delimiter then Inr ((parse_save_field r)\<lparr>rd_state := START_FIELD\<rparr>)
           else if end_of_line c then Inr ((parse_save_field r)\<lparr>rd_state := after_line_end c\<rparr>)
           else (case c of None \<Rightarrow> Inr r | Some ch \<Rightarrow> Inr ((parse_add_char ch r)\<lparr>rd_state := IN_FIELD\<rparr>)))
      | EAT_CRNL \<Rightarrow>
          (if c = Some newline \<or> c = Some carriage_return then Inr r
           else if c = None then Inr (r\<lparr>rd_state := START_RECORD\<rparr>)
           else Inl CsvError))"

text \<open>One line: every character, then the end-of-line mark.\<close>

fun feed_line :: "reader \<Rightarrow> string \<Rightarrow> exn + reader" where
  "feed_line r [] = parse_process_char r None"
| "feed_line r (c # cs) =
     (case parse_process_char r (Some c) of Inl e \<Rightarrow> Inl e | Inr r' \<Rightarrow> feed_line r' cs)"

text \<open>
  The rows the reader yields for the lines of a file. A record ends with the line
  after which the state is \<^verbatim>\<open>START_RECORD\<close>; when the lines run out inside a
  record, the pending field is saved and the record is yielded.
\<close>

fun csv_rows_from :: "reader \<Rightarrow> string list \<Rightarrow> exn + string list list" where
  "csv_rows_from r [] =
     (if rd_field r \<noteq> [] \<or> rd_state r = IN_QUOTED_FIELD then Inr [rd_fields (parse_save_field r)]
      else Inr [])"
| "csv_rows_from r (l # ls) =
     (case feed_line r l of
        Inl e \<Rightarrow> Inl e
      | Inr r' \<Rightarrow>
          if rd_state r' \<noteq> START_RECORD then csv_rows_from r' ls
          else (case csv_rows_from parse_reset ls of
                  Inl e \<Rightarrow> Inl e
                | Inr rows \<Rightarrow> Inr (rd_fields r' # rows)))"

definition csv_reader :: "string list \<Rightarrow> exn + string list list" where
  "csv_reader lines = csv_rows_from parse_reset lines"

text \<open>Iterating over a text file: the lines, each with its newline.\<close>

fun file_lines :: "string \<Rightarrow> string \<Rightarrow> string list" where
  "file_lines [] cur = (if cur = [] then [] else [cur])"
| "file_lines (c # cs) cur =
     (if c = newline then (cur @ [c]) # file_lines cs [] else file_lines cs (cur @ [c]))"

section \<open>The remote service, the files and the log\<close>

text \<open>A parsed JSON document: what \<^verbatim>\<open>response.json()\<close> returns and \<^verbatim>\<open>json.dumps\<close> takes.\<close>

datatype json =
    JNull
  | JBool bool
  | JNum int
  | JStr string
  | JArr "json list"
  | JObj "(string \<times> json) list"

text \<open>
  \<^verbatim>\<open>value[key]\<close> with a string key: a dictionary without the key raises
  \<^verbatim>\<open>KeyError\<close>, any other value raises \<^verbatim>\<open>TypeError\<close>.
\<close>

fun subscript :: "json \<Rightarrow> string \<Rightarrow> exn + json" where
  "subscript (JObj kvs) key = (case map_of kvs key of None \<Rightarrow> Inl (KeyError key) | Some v \<Rightarrow> Inr v)"
| "subscript _ key = Inl TypeError"

datatype http_method = POST | PATCH | PUT

datatype body = NoBody | Text string | Json json

record request =
  req_method :: http_method
  req_url :: string
  req_headers :: "(string \<times> string) list"
  req_data :: body

text \<open>A response: its status code and its body parsed as JSON (\<open>None\<close>: the body is not JSON).\<close>

record response =
  status_code :: nat
  resp_json :: "json option"

definition raise_for_status :: "request \<Rightarrow> response \<Rightarrow> exn option" where
  "raise_for_status rq rs =
     (if 400 \<le> status_code rs \<and> status_code rs < 600
      then Some (HTTPError (status_code rs) (req_url rq)) else None)"

definition response_json :: "response \<Rightarrow> exn + json" where
  "response_json rs = (case resp_json rs of None \<Rightarrow> Inl JSONDecodeError | Some j \<Rightarrow> Inr j)"

datatype level = DEBUG | INFO | ERROR

datatype log_arg = Str string | Val json | Exn exn

record log_record =
  log_level :: level
  log_msg :: string
  log_args :: "log_arg list"

datatype event = Request request | FileWritten string string | ConfigWritten

type_synonym config = "string \<rightharpoonup> (string \<rightharpoonup> string)"

text \<open>
  Everything outside the process. The remote service answers every request (transport
  failures are outside the model); its answer may depend on the requests made so far.
  \<open>config_ini\<close> is the configuration file beside the script, \<open>html_file\<close> the file at
  the configured HTML output path and \<open>csv_file\<close> the text of the file at the
  configured CSV path (\<open>None\<close>: no such file); the three are distinct files. \<open>events\<close>
  lists the requests sent and the files written, oldest first, and \<open>log\<close> the calls
  to \<^verbatim>\<open>logging\<close>.
\<close>

record world =
  environ :: "string \<rightharpoonup> string"
  cwd :: string
  config_ini :: config
  csv_file :: "string option"
  html_file :: "string option"
  clock :: datetime
  remote :: "request list \<Rightarrow> request \<Rightarrow> response"
  events :: "event list"
  log :: "log_record list"

fun requests_of :: "event list \<Rightarrow> request list" where
  "requests_of [] = []"
| "requests_of (Request rq # es) = rq # requests_of es"
| "requests_of (e # es) = requests_of es"

definition send :: "request \<Rightarrow> world \<Rightarrow> response \<times> world" where
  "send rq w = (remote w (requests_of (events w)) rq, w\<lparr>events := events w @ [Request rq]\<rparr>)"

definition logging :: "level \<Rightarrow> string \<Rightarrow> log_arg list \<Rightarrow> world \<Rightarrow> world" where
  "logging lvl msg args w =
     w\<lparr>log := log w @ [\<lparr>log_level = lvl, log_msg = msg, log_args = args\<rparr>]\<rparr>"

text \<open>
  The pattern every method follows after its request:
  \<^verbatim>\<open>
  try:
      response.raise_for_status()
  except requests.exceptions.HTTPError as err:
      logging.exception(msg, ..., err)
  \<close>
\<close>

definition log_http_error :: "request \<Rightarrow> response \<Rightarrow> string \<Rightarrow> log_arg list \<Rightarrow> world \<Rightarrow> world" where
  "log_http_error rq rs msg args w =
     (case raise_for_status rq rs of
        None \<Rightarrow> w
      | Some err \<Rightarrow> logging ERROR msg (args @ [Exn err]) w)"

section \<open>DataWrapperMap\<close>

record mapper =
  config :: config
  api_auth_code :: string
  map_id :: string
  html_map_output :: string
  csv_file_path :: string

text \<open>\<^verbatim>\<open>config[section][option]\<close>\<close>

definition config_get :: "config \<Rightarrow> string \<Rightarrow> string \<Rightarrow> exn + string" where
  "config_get cfg section option =
     (case cfg section of
        None \<Rightarrow> Inl (KeyError section)
      | Some opts \<Rightarrow> (case opts option of None \<Rightarrow> Inl (KeyError option) | Some v \<Rightarrow> Inr v))"

text \<open>\<^verbatim>\<open>os.path.join(a, b)\<close>\<close>

definition os_path_join :: "string \<Rightarrow> string \<Rightarrow> string" where
  "os_path_join a b =
     (if b \<noteq> [] \<and> hd b = CHR ''/'' then b
      else if a = [] \<or> last a = CHR ''/'' then a @ b
      else a @ ''/'' @ b)"

text \<open>The constructor \<^verbatim>\<open>DataWrapperMap.__init__\<close>.\<close>

definition init_mapper :: "config \<Rightarrow> world \<Rightarrow> exn + mapper" where
  "init_mapper cfg w =
     (case config_get cfg ''DATA_WRAPPER'' ''API_AUTH_CODE'' of
        Inl e \<Rightarrow> Inl e
      | Inr var \<Rightarrow>
     (case environ w var of
        None \<Rightarrow> Inl (KeyError var)
      | Some code \<Rightarrow>
     (case config_get cfg ''DATA_WRAPPER'' ''MAP_ID'' of
        Inl e \<Rightarrow> Inl e
      | Inr mid \<Rightarrow>
     (case config_get cfg ''DATA_SOURCES'' ''HTML_OUTPUT_FILE_PATH'' of
        Inl e \<Rightarrow> Inl e
      | Inr html \<Rightarrow>
     (case config_get cfg ''DATA_SOURCES'' ''OUTPUT_CSV_FILE_PATH'' of
        Inl e \<Rightarrow> Inl e
      | Inr csv \<Rightarrow>
          Inr \<lparr>config = cfg, api_auth_code = code, map_id = mid,
               html_map_output = os_path_join (cwd w) html,
               csv_file_path = os_path_join (cwd w) csv\<rparr>)))))"

text \<open>
  A method runs on the object and the world and returns the exception that escapes it,
  if any, with the object and the world as it leaves them.
\<close>

type_synonym outcome = "exn option \<times> mapper \<times> world"

definition seq :: "(mapper \<Rightarrow> world \<Rightarrow> outcome) \<Rightarrow> (mapper \<Rightarrow> world \<Rightarrow> outcome) \<Rightarrow> mapper \<Rightarrow> world \<Rightarrow> outcome" where
  "seq f g m w = (case f m w of (None, m', w') \<Rightarrow> g m' w' | (Some e, m', w') \<Rightarrow> (Some e, m', w'))"

definition json_headers :: "string \<Rightarrow> (string \<times> string) list" where
  "json_headers auth =
     [(''content-type'', ''application/json''), (''Authorization'', ''Bearer '' @ auth)]"

text \<open>\<^verbatim>\<open>set_map_id\<close>: store the identifier in the configuration and rewrite the file.\<close>

definition set_map_id :: "mapper \<Rightarrow> world \<Rightarrow> outcome" where
  "set_map_id m w =
     (let w1 = logging DEBUG ''Writing new map_id to config file: %s'' [Str (map_id m)] w in
      case config m ''DATA_WRAPPER'' of
        None \<Rightarrow> (Some (NoSectionError ''DATA_WRAPPER''), m, w1)
      | Some opts \<Rightarrow>
          (let cfg = (config m)(''DATA_WRAPPER'' \<mapsto> opts(''MAP_ID'' \<mapsto> map_id m)) in
           (None, m\<lparr>config := cfg\<rparr>,
            w1\<lparr>config_ini := cfg, events := events w1 @ [ConfigWritten]\<rparr>)))"

definition create_payload :: string where
  \<open>create_payload = ''{ "title": "Irish Covid19 Cases", "type":"d3-maps-choropleth"}''\<close>

definition create_request :: "string \<Rightarrow> request" where
  "create_request auth =
     \<lparr>req_method = POST, req_url = ''https://api.datawrapper.de/v3/charts'',
      req_headers = json_headers auth, req_data = Text create_payload\<rparr>"

text \<open>
  \<^verbatim>\<open>create_choropleth\<close>. The identifier is read from the response whatever its status.
  An identifier that is not a string stops in \<^verbatim>\<open>set_map_id\<close>, where the
  configuration refuses it.
\<close>

definition create_choropleth :: "mapper \<Rightarrow> world \<Rightarrow> outcome" where
  "create_choropleth m w =
     (let rq = create_request (api_auth_code m);
          (rs, w1) = send rq w;
          w2 = log_http_error rq rs ''Map Create Failed: error was: %s'' [] w1;
          w3 = logging DEBUG ''Created new choropleth with map_id: %s'' [Str (map_id m)] w2
      in case response_json rs of
           Inl e \<Rightarrow> (Some e, m, w3)
         | Inr j \<Rightarrow>
             (case subscript j ''id'' of
                Inl e \<Rightarrow> (Some e, m, w3)
              | Inr (JStr new_id) \<Rightarrow> set_map_id (m\<lparr>map_id := new_id\<rparr>) w3
              | Inr v \<Rightarrow>
                  (Some TypeError, m,
                   logging DEBUG ''Writing new map_id to config file: %s'' [Val v] w3)))"

definition chart_url :: "string \<Rightarrow> string" where
  "chart_url mid = ''https://api.datawrapper.de/v3/charts/'' @ mid"

definition tooltip :: json where
  "tooltip =
     JObj [(''body'', JStr ''{{ cases }} cases.''),
           (''title'', JStr ''{{ county }}''),
           (''fields'', JObj [(''cases'', JStr ''cases''), (''county'', JStr ''county'')])]"

definition configure_payload :: json where
  "configure_payload =
     JObj [(''metadata'', JObj
       [(''axes'', JObj [(''keys'', JStr ''county''), (''labels'', JStr ''county''),
                        (''values'', JStr ''cases'')]),
        (''tooltip'', tooltip),
        (''visualize'', JObj
          [(''basemap'', JStr ''ireland-counties-notadmin''),
           (''map-key-attr'', JStr ''FIRST_CO_E''),
           (''map-key-format'', JStr ''0''),
           (''map-key-position'', JStr ''br''),
           (''zoomable'', JBool True),
           (''map-label-label'', JStr ''county''),
           (''map-label-zoom'', JStr ''1''),
           (''min-label-zoom'', JStr ''1'')]),
        (''describe'', JObj
          [(''source-name'', JStr ''Irish Department of Health''),
           (''source-url'', JStr ''https://www.gov.ie/en/campaigns/c36c85-covid-19-coronavirus/''),
           (''number-format'', JStr ''-'')]),
        (''publish'', JObj [(''embed-width'', JNum 600), (''embed-height'', JNum 600)])])]"

definition configure_request :: "string \<Rightarrow> string \<Rightarrow> request" where
  "configure_request auth mid =
     \<lparr>req_method = PATCH, req_url = chart_url mid, req_headers = json_headers auth,
      req_data = Json configure_payload\<rparr>"

definition configure_map_settings :: "mapper \<Rightarrow> world \<Rightarrow> outcome" where
  "configure_map_settings m w =
     (let rq = configure_request (api_auth_code m) (map_id m);
          (rs, w1) = send rq w;
          w2 = log_http_error rq rs ''Map configuration setting failed: error was: %s'' [] w1
      in (None, m, logging DEBUG ''Updated map settings for map_id: %s'' [Str (map_id m)] w2))"

definition tooltip_payload :: json where
  "tooltip_payload = JObj [(''metadata'', JObj [(''visualize'', JObj [(''tooltip'', tooltip)])])]"

definition tooltip_request :: "string \<Rightarrow> string \<Rightarrow> request" where
  "tooltip_request auth mid =
     \<lparr>req_method = PATCH, req_url = chart_url mid, req_headers = json_headers auth,
      req_data = Json tooltip_payload\<rparr>"

definition add_map_tooltip :: "mapper \<Rightarrow> world \<Rightarrow> outcome" where
  "add_map_tooltip m w =
     (let rq = tooltip_request (api_auth_code m) (map_id m);
          (rs, w1) = send rq w;
          w2 = log_http_error rq rs ''Tooltip add failed for map_id: %s: error was: %s''
                 [Str (map_id m)] w1
      in (None, m, logging DEBUG ''Added tooltip hover settings for map_id: %s'' [Str (map_id m)] w2))"

definition data_request :: "string \<Rightarrow> string \<Rightarrow> string \<Rightarrow> request" where
  "data_request auth mid county_results =
     \<lparr>req_method = PUT, req_url = chart_url mid @ ''/data'',
      req_headers = [(''accept'', ''*/*''), (''content-type'', ''text/csv''),
                     (''Authorization'', ''Bearer '' @ auth)],
      req_data = Text county_results\<rparr>"

text \<open>
  \<^verbatim>\<open>update_map_data\<close>: the file is opened, read through the CSV reader row by row, and
  the accumulated text is sent.
\<close>

definition update_map_data :: "mapper \<Rightarrow> world \<Rightarrow> outcome" where
  "update_map_data m w =
     (case csv_file w of
        None \<Rightarrow> (Some (FileNotFoundError (csv_file_path m)), m, w)
      | Some text \<Rightarrow>
          (case csv_reader (file_lines text []) of
             Inl e \<Rightarrow> (Some e, m, w)
           | Inr csv_data \<Rightarrow>
               (let rq = data_request (api_auth_code m) (map_id m) (county_results_of csv_data);
                    (rs, w1) = send rq w;
                    w2 = log_http_error rq rs ''Update of map data failed: error was: %s'' [] w1
                in (None, m,
                    logging DEBUG ''Map data updated successfully from csv for map_id: %s''
                      [Str (map_id m)] w2))))"

definition timestamp_payload :: "string \<Rightarrow> json" where
  "timestamp_payload timestamp_now =
     JObj [(''metadata'', JObj [(''annotate'', JObj
       [(''notes'', JStr (''Last update:'' @ timestamp_now))])])]"

definition timestamp_request :: "string \<Rightarrow> string \<Rightarrow> string \<Rightarrow> request" where
  "timestamp_request auth mid timestamp_now =
     \<lparr>req_method = PATCH, req_url = chart_url mid, req_headers = json_headers auth,
      req_data = Json (timestamp_payload timestamp_now)\<rparr>"

definition set_last_update_timestamp :: "mapper \<Rightarrow> world \<Rightarrow> outcome" where
  "set_last_update_timestamp m w =
     (let timestamp_now = strftime (clock w);
          rq = timestamp_request (api_auth_code m) (map_id m) timestamp_now;
          (rs, w1) = send rq w;
          w2 = log_http_error rq rs ''Set timestamp fail for map_id: %s: error was: %s''
                 [Str (map_id m)] w1
      in (None, m, logging DEBUG ''Set last update timestamp for map_id: %s'' [Str (map_id m)] w2))"

definition publish_request :: "string \<Rightarrow> string \<Rightarrow> request" where
  "publish_request auth mid =
     \<lparr>req_method = POST, req_url = ''https://api.datawrapper.de/charts/'' @ mid @ ''/publish'',
      req_headers = json_headers auth, req_data = NoBody\<rparr>"

text \<open>\<^verbatim>\<open>value[k1][k2]...\<close>, left to right.\<close>

fun subscripts :: "json \<Rightarrow> string list \<Rightarrow> exn + json" where
  "subscripts j [] = Inr j"
| "subscripts j (k # ks) = (case subscript j k of Inl e \<Rightarrow> Inl e | Inr v \<Rightarrow> subscripts v ks)"

text \<open>
  The end of \<^verbatim>\<open>publish_map\<close>:
  \<^verbatim>\<open>
  with open(self.html_map_output, "w") as html_file:
      html_file.write(embed_codes['embed-codes']['embed-method-responsive'])
  \<close>
  Opening the file empties it before the snippet is looked up, and only a string can
  be written.
\<close>

definition write_embed_codes :: "json \<Rightarrow> mapper \<Rightarrow> world \<Rightarrow> outcome" where
  "write_embed_codes embed_codes m w =
     (let w1 = w\<lparr>html_file := Some []\<rparr> in
      case subscripts embed_codes [''embed-codes'', ''embed-method-responsive''] of
        Inl e \<Rightarrow> (Some e, m, w1)
      | Inr (JStr snippet) \<Rightarrow>
          (None, m, w1\<lparr>html_file := Some snippet,
                       events := events w1 @ [FileWritten (html_map_output m) snippet]\<rparr>)
      | Inr _ \<Rightarrow> (Some TypeError, m, w1))"

definition publish_post :: "mapper \<Rightarrow> world \<Rightarrow> outcome" where
  "publish_post m w =
     (let rq = publish_request (api_auth_code m) (map_id m);
          (rs, w1) = send rq w;
          w2 = log_http_error rq rs ''Map publishing fail for map_id: %s: error was: %s''
                 [Str (map_id m)] w1;
          w3 = logging DEBUG ''Map published successfully for map_id: %s'' [Str (map_id m)] w2
      in case response_json rs of
           Inl e \<Rightarrow> (Some e, m, w3)
         | Inr j \<Rightarrow>
             (case subscripts j [''data'', ''metadata'', ''publish''] of
                Inl e \<Rightarrow> (Some e, m, w3)
              | Inr embed_codes \<Rightarrow>
                  write_embed_codes embed_codes m
                    (logging DEBUG ''Writing html iframe to disk for map_id: %s''
                       [Str (map_id m)] w3)))"

definition publish_map :: "mapper \<Rightarrow> world \<Rightarrow> outcome" where
  "publish_map = seq set_last_update_timestamp publish_post"

definition run_map_creation :: "mapper \<Rightarrow> world \<Rightarrow> outcome" where
  "run_map_creation =
     seq create_choropleth
       (seq configure_map_settings (seq add_map_tooltip (seq update_map_data publish_map)))"

definition run_map_update :: "mapper \<Rightarrow> world \<Rightarrow> outcome" where
  "run_map_update = seq update_map_data publish_map"

section \<open>The command\<close>

definition level_names :: "string list" where
  "level_names =
     [''CRITICAL'', ''FATAL'', ''ERROR'', ''WARN'', ''WARNING'', ''INFO'', ''DEBUG'', ''NOTSET'']"

text \<open>
  \<^verbatim>\<open>main\<close>, from the parsed argument \<^verbatim>\<open>args.run_type\<close> on: the configuration is read,
  logging is set up (a level name \<^verbatim>\<open>logging\<close> does not know is refused), the object is
  built, and the run type selects the workflow. The result is the exit status of the
  process, 1 when an exception escapes \<^verbatim>\<open>main\<close>, and the world it leaves.
\<close>

definition dispatch :: "string \<Rightarrow> mapper \<Rightarrow> world \<Rightarrow> outcome" where
  "dispatch run_type m w =
     (if run_type = ''create''
      then run_map_creation m (logging INFO ''Initiating map creation process'' [] w)
      else if run_type = ''update''
      then run_map_update m (logging INFO ''Initiating map data update process'' [] w)
      else (None, m, w))"

definition startup :: "world \<Rightarrow> exn + mapper" where
  "startup w =
     (case config_get (config_ini w) ''LOGGING'' ''LOG_DIR'' of
        Inl e \<Rightarrow> Inl e
      | Inr log_dir \<Rightarrow>
     (case config_get (config_ini w) ''LOGGING'' ''LOG_LEVEL'' of
        Inl e \<Rightarrow> Inl e
      | Inr lvl \<Rightarrow>
          if lvl \<notin> set level_names then Inl ValueError
          else init_mapper (config_ini w) w))"

definition exit_status :: "exn option \<Rightarrow> nat" where
  "exit_status e = (case e of None \<Rightarrow> 0 | Some _ \<Rightarrow> 1)"

definition main :: "string \<Rightarrow> world \<Rightarrow> nat \<times> world" where
  "main run_type w =
     (case startup w of
        Inl e \<Rightarrow> (exit_status (Some e), w)
      | Inr mapper \<Rightarrow>
          (case dispatch run_type mapper w of (e, m, w') \<Rightarrow> (exit_status e, w')))"

section \<open>Sample worlds\<close>

text \<open>
  A configuration as the repository's \<^verbatim>\<open>config.ini\<close> lays it out, a two-county CSV
  file, the time of the docstring's example, and two remote services: one that
  answers as the charting service does, and one that refuses every request.
\<close>

definition sample_config :: config where
  "sample_config =
     [''DATA_WRAPPER'' \<mapsto> [''API_AUTH_CODE'' \<mapsto> ''DW_TOKEN'', ''MAP_ID'' \<mapsto> ''old01''],
      ''DATA_SOURCES'' \<mapsto> [''HTML_OUTPUT_FILE_PATH'' \<mapsto> ''map.html'',
                            ''OUTPUT_CSV_FILE_PATH'' \<mapsto> ''cases.csv''],
      ''LOGGING'' \<mapsto> [''LOG_DIR'' \<mapsto> ''logs'', ''LOG_LEVEL'' \<mapsto> ''DEBUG'']]"

definition sample_time :: datetime where
  "sample_time =
     \<lparr>dt_year = 2020, dt_month = 3, dt_day = 21, dt_hour = 18, dt_minute = 39, dt_second = 33\<rparr>"

definition publish_reply :: "string \<Rightarrow> json" where
  "publish_reply snippet =
     JObj [(''data'', JObj [(''metadata'', JObj [(''publish'', JObj
       [(''embed-codes'', JObj [(''embed-method-responsive'', JStr snippet)])])])])]"

definition serving_remote :: "request list \<Rightarrow> request \<Rightarrow> response" where
  "serving_remote history rq =
     (if req_method rq = POST \<and> req_url rq = ''https://api.datawrapper.de/v3/charts''
      then \<lparr>status_code = 201, resp_json = Some (JObj [(''id'', JStr ''new02'')])\<rparr>
      else if req_method rq = POST
      then \<lparr>status_code = 200, resp_json = Some (publish_reply ''<iframe/>'')\<rparr>
      else \<lparr>status_code = 200, resp_json = Some (JObj [])\<rparr>)"

definition refusal :: response where
  "refusal =
     \<lparr>status_code = 401,
      resp_json = Some (JObj [(''statusCode'', JNum 401), (''error'', JStr ''Unauthorized''),
                              (''message'', JStr ''Session not found'')])\<rparr>"

definition refusing_remote :: "request list \<Rightarrow> request \<Rightarrow> response" where
  "refusing_remote history rq = refusal"

definition sample_world :: world where
  "sample_world =
     \<lparr>environ = [''DW_TOKEN'' \<mapsto> ''secret''], cwd = ''/srv/tracker'',
      config_ini = sample_config,
      csv_file = Some (''CARLOW,5'' @ [newline] @ ''CAVAN,5'' @ [newline]),
      html_file = Some ''<old/>'', clock = sample_time, remote = serving_remote,
      events = [], log = []\<rparr>"

definition sample_mapper :: mapper where
  "sample_mapper =
     \<lparr>config = sample_config, api_auth_code = ''secret'', map_id = ''old01'',
      html_map_output = ''/srv/tracker/map.html'', csv_file_path = ''/srv/tracker/cases.csv''\<rparr>"

definition refused_world :: world where
  "refused_world = sample_world\<lparr>remote := refusing_remote\<rparr>"



section \<open>Steps of a run\<close>

text \<open>The events a run adds to those the world already records.\<close>

definition emitted :: "world \<Rightarrow> world \<Rightarrow> event list" where
  "emitted w w' = drop (length (events w)) (events w')"

text \<open>The rows \<^verbatim>\<open>update_map_data\<close> reads (none where the file cannot be read).\<close>

definition csv_rows :: "world \<Rightarrow> string list list" where
  "csv_rows w =
     (case csv_file w of
        None \<Rightarrow> []
      | Some content \<Rightarrow> (case csv_reader (file_lines content []) of Inl e \<Rightarrow> [] | Inr rows \<Rightarrow> rows))"

text \<open>
  What \<^verbatim>\<open>run_map_update\<close> sends and writes when nothing stops it, for the object it
  runs on and the snippet it writes; and the same for \<^verbatim>\<open>run_map_creation\<close>, for the
  object as \<^verbatim>\<open>create_choropleth\<close> leaves it.
\<close>

definition update_events :: "mapper \<Rightarrow> world \<Rightarrow> string \<Rightarrow> event list" where
  "update_events m w snippet =
     [Request (data_request (api_auth_code m) (map_id m) (county_results_of (csv_rows w))),
      Request (timestamp_request (api_auth_code m) (map_id m) (strftime (clock w))),
      Request (publish_request (api_auth_code m) (map_id m)),
      FileWritten (html_map_output m) snippet]"

definition creation_events :: "mapper \<Rightarrow> world \<Rightarrow> string \<Rightarrow> event list" where
  "creation_events m w snippet =
     [Request (create_request (api_auth_code m)), ConfigWritten,
      Request (configure_request (api_auth_code m) (map_id m)),
      Request (tooltip_request (api_auth_code m) (map_id m))] @ update_events m w snippet"

definition written_snippet :: "world \<Rightarrow> string" where
  "written_snippet w = (case html_file w of None \<Rightarrow> [] | Some snippet \<Rightarrow> snippet)"

text \<open>The step of the workflow an event belongs to, read off the event itself.\<close>

datatype step =
  Create | PersistIdentifier | Configure | SetTooltip | PushData | StampTimestamp | Publish
  | WriteEmbedArtifact

fun step_of :: "event \<Rightarrow> step" where
  "step_of ConfigWritten = PersistIdentifier"
| "step_of (FileWritten path content) = WriteEmbedArtifact"
| "step_of (Request rq) =
     (if req_method rq = PUT then PushData
      else if req_method rq = POST
      then (if req_url rq = ''https://api.datawrapper.de/v3/charts'' then Create else Publish)
      else if req_data rq = Json configure_payload then Configure
      else if req_data rq = Json tooltip_payload then SetTooltip
      else StampTimestamp)"

text \<open>A method that sends its request, logs, and returns.\<close>

definition after_request :: "request \<Rightarrow> world \<Rightarrow> world \<Rightarrow> bool" where
  "after_request rq w w' =
     (events w' = events w @ [Request rq] \<and> environ w' = environ w \<and> cwd w' = cwd w \<and>
      config_ini w' = config_ini w \<and> csv_file w' = csv_file w \<and> html_file w' = html_file w \<and>
      clock w' = clock w \<and> remote w' = remote w)"

section \<open>Rows as CSV text\<close>












section \<open>The payload of the data request\<close>

lemma county_results_loop_eq:
  "county_results_loop rows acc = acc @ spec_payload rows"
  by (induction rows arbitrary: acc) (simp_all add: spec_payload_def)

lemma county_results_of_eq: "county_results_of rows = spec_payload rows"
  by (simp add: county_results_of_def county_results_loop_eq)

lemma payload_lines_line:
  "newline \<notin> set s \<Longrightarrow> payload_lines (s @ newline # rest) cur = (cur @ s) # payload_lines rest []"
  by (induction s arbitrary: cur) auto

lemma str_join_no_newline:
  "list_all (\<lambda>field. newline \<notin> set field) row \<Longrightarrow> newline \<notin> set (str_join '', '' row)"
  by (induction "'', ''" row rule: str_join.induct) (auto simp: newline_def)

lemma payload_lines_spec_payload:
  "no_newline rows \<Longrightarrow> payload_lines (spec_payload rows) [] = map (str_join '', '') rows"
proof (induction rows)
  case Nil
  then show ?case by (simp add: spec_payload_def)
next
  case (Cons row rows)
  then have "newline \<notin> set (str_join '', '' row)" and "no_newline rows"
    by (simp_all add: no_newline_def str_join_no_newline)
  with Cons.IH show ?case
    using payload_lines_line [of "str_join '', '' row" "spec_payload rows" "[]"]
    by (simp add: spec_payload_def)
qed

lemma requests_of_snoc: "requests_of (es @ [Request rq]) = requests_of es @ [rq]"
  by (induction es rule: requests_of.induct) simp_all

lemma update_map_data_sends:
  assumes "csv_file w = Some text" and "csv_reader (file_lines text []) = Inr rows"
  shows "requests_of (events (snd (snd (update_map_data m w)))) =
           requests_of (events w) @ [data_request (api_auth_code m) (map_id m) (county_results_of rows)]"
  using assms
  by (simp add: update_map_data_def send_def log_http_error_def logging_def Let_def requests_of_snoc
      split: option.splits)

lemma sample_csv_rows:
  "csv_reader (file_lines (''CARLOW,5'' @ [newline] @ ''CAVAN,5'' @ [newline]) []) =
     Inr [[''CARLOW'', ''5''], [''CAVAN'', ''5'']]"
  by (simp add: csv_reader_def parse_reset_def parse_process_char_def start_field_def
      parse_save_field_def parse_add_char_def end_of_line_def after_line_end_def
      newline_def carriage_return_def delimiter_def quotechar_def)

text \<open>
  C1. The text \<^verbatim>\<open>update_map_data\<close> accumulates is every row's fields joined by
  \<open>", "\<close>, each row followed by a newline, in the order of the rows; the rows
  \<open>[("CARLOW","5"),("CAVAN","5")]\<close> give \<open>"CARLOW, 5\nCAVAN, 5\n"\<close>. Where no
  field holds a newline, the lines of the payload are exactly the joined rows, one per
  row and in their order, so that no row is moved, dropped or merged. This text is the
  body of the request \<^verbatim>\<open>update_map_data\<close> sends.
\<close>

theorem pushData_payload:
  "county_results_of rows = spec_payload rows \<and>
   spec_payload [[''CARLOW'', ''5''], [''CAVAN'', ''5'']] =
     ''CARLOW, 5'' @ [newline] @ ''CAVAN, 5'' @ [newline] \<and>
   (no_newline rows \<longrightarrow>
      payload_lines (county_results_of rows) [] = map (str_join '', '') rows) \<and>
   (csv_file w = Some content \<and> csv_reader (file_lines content []) = Inr rows \<longrightarrow>
      requests_of (events (snd (snd (update_map_data m w)))) =
        requests_of (events w) @
          [data_request (api_auth_code m) (map_id m) (spec_payload rows)])"
  using update_map_data_sends [of w content rows m]
  by (simp add: county_results_of_eq payload_lines_spec_payload) (simp add: spec_payload_def)

theorem pushData_payload_witness:
  "no_newline [[''CARLOW'', ''5''], [''CAVAN'', ''5'']] \<and>
   csv_file sample_world = Some (''CARLOW,5'' @ [newline] @ ''CAVAN,5'' @ [newline]) \<and>
   csv_reader (file_lines (''CARLOW,5'' @ [newline] @ ''CAVAN,5'' @ [newline]) []) =
     Inr [[''CARLOW'', ''5''], [''CAVAN'', ''5'']] \<and>
   payload_lines (county_results_of [[''CARLOW'', ''5''], [''CAVAN'', ''5'']]) [] =
     [''CARLOW, 5'', ''CAVAN, 5''] \<and>
   requests_of (events (snd (snd (update_map_data sample_mapper sample_world)))) =
     [data_request ''secret'' ''old01'' (''CARLOW, 5'' @ [newline] @ ''CAVAN, 5'' @ [newline])]"
proof -
  let ?rows = "[[''CARLOW'', ''5''], [''CAVAN'', ''5'']]"
  let ?content = "''CARLOW,5'' @ [newline] @ ''CAVAN,5'' @ [newline]"
  have nn: "no_newline ?rows"
    by (simp add: no_newline_def newline_def)
  have cf: "csv_file sample_world = Some ?content"
    by (simp add: sample_world_def)
  note t = pushData_payload [of ?rows sample_world ?content sample_mapper]
  have a: "payload_lines (county_results_of ?rows) [] = map (str_join '', '') ?rows"
    using t nn by blast
  have p: "spec_payload ?rows = ''CARLOW, 5'' @ [newline] @ ''CAVAN, 5'' @ [newline]"
    using t by blast
  have b: "requests_of (events (snd (snd (update_map_data sample_mapper sample_world)))) =
     requests_of (events sample_world) @
       [data_request (api_auth_code sample_mapper) (map_id sample_mapper) (spec_payload ?rows)]"
    using t cf sample_csv_rows by blast
  have c: "requests_of (events sample_world) = []" "api_auth_code sample_mapper = ''secret''"
    "map_id sample_mapper = ''old01''"
    by (simp_all add: sample_world_def sample_mapper_def)
  have a': "payload_lines (county_results_of ?rows) [] = [''CARLOW, 5'', ''CAVAN, 5'']"
    unfolding a by simp
  have b': "requests_of (events (snd (snd (update_map_data sample_mapper sample_world)))) =
     [data_request ''secret'' ''old01'' (''CARLOW, 5'' @ [newline] @ ''CAVAN, 5'' @ [newline])]"
    unfolding b c p by simp
  from nn cf sample_csv_rows a' b' show ?thesis by blast
qed

section \<open>What the methods leave behind\<close>


lemma events_logging [simp]: "events (logging lvl msg args w) = events w"
  by (simp add: logging_def)

lemma events_log_http_error [simp]: "events (log_http_error rq rs msg args w) = events w"
  by (simp add: log_http_error_def split: option.splits)

section \<open>The timestamp\<close>














section \<open>The effect of each method\<close>

lemma logging_fields [simp]:
  "environ (logging lvl msg args w) = environ w"
  "cwd (logging lvl msg args w) = cwd w"
  "config_ini (logging lvl msg args w) = config_ini w"
  "csv_file (logging lvl msg args w) = csv_file w"
  "html_file (logging lvl msg args w) = html_file w"
  "clock (logging lvl msg args w) = clock w"
  "remote (logging lvl msg args w) = remote w"
  by (simp_all add: logging_def)

lemma log_http_error_fields [simp]:
  "environ (log_http_error rq rs msg args w) = environ w"
  "cwd (log_http_error rq rs msg args w) = cwd w"
  "config_ini (log_http_error rq rs msg args w) = config_ini w"
  "csv_file (log_http_error rq rs msg args w) = csv_file w"
  "html_file (log_http_error rq rs msg args w) = html_file w"
  "clock (log_http_error rq rs msg args w) = clock w"
  "remote (log_http_error rq rs msg args w) = remote w"
  by (simp_all add: log_http_error_def split: option.splits)

lemma configure_map_settings_effect:
  "\<exists>w'. configure_map_settings m w = (None, m, w') \<and>
        after_request (configure_request (api_auth_code m) (map_id m)) w w'"
  by (simp add: configure_map_settings_def send_def Let_def after_request_def)

lemma add_map_tooltip_effect:
  "\<exists>w'. add_map_tooltip m w = (None, m, w') \<and>
        after_request (tooltip_request (api_auth_code m) (map_id m)) w w'"
  by (simp add: add_map_tooltip_def send_def Let_def after_request_def)

lemma set_last_update_timestamp_effect:
  "\<exists>w'. set_last_update_timestamp m w = (None, m, w') \<and>
        after_request (timestamp_request (api_auth_code m) (map_id m) (strftime (clock w))) w w'"
  by (simp add: set_last_update_timestamp_def send_def Let_def after_request_def)

lemma update_map_data_effect:
  "(\<exists>e. update_map_data m w = (Some e, m, w)) \<or>
   (\<exists>w'. update_map_data m w = (None, m, w') \<and>
      after_request (data_request (api_auth_code m) (map_id m) (county_results_of (csv_rows w))) w w')"
  by (simp add: update_map_data_def send_def Let_def after_request_def csv_rows_def
      split: option.splits sum.splits)

lemma publish_post_effect:
  "(\<exists>e w'. publish_post m w = (Some e, m, w') \<and>
      events w' = events w @ [Request (publish_request (api_auth_code m) (map_id m))] \<and>
      config_ini w' = config_ini w) \<or>
   (\<exists>w' snippet. publish_post m w = (None, m, w') \<and>
      events w' = events w @ [Request (publish_request (api_auth_code m) (map_id m)),
                              FileWritten (html_map_output m) snippet] \<and>
      html_file w' = Some snippet \<and> config_ini w' = config_ini w)"
  by (simp add: publish_post_def write_embed_codes_def send_def Let_def
      split: option.splits sum.splits json.splits)

lemma after_request_trans_fields:
  "after_request rq w w' \<Longrightarrow> clock w' = clock w \<and> csv_file w' = csv_file w \<and>
     config_ini w' = config_ini w \<and> html_file w' = html_file w \<and> remote w' = remote w"
  by (simp add: after_request_def)

lemma csv_rows_cong: "csv_file w' = csv_file w \<Longrightarrow> csv_rows w' = csv_rows w"
  by (simp add: csv_rows_def)

lemma publish_map_effect:
  "(\<exists>e w'. publish_map m w = (Some e, m, w') \<and>
      events w' = events w @
        [Request (timestamp_request (api_auth_code m) (map_id m) (strftime (clock w))),
         Request (publish_request (api_auth_code m) (map_id m))] \<and>
      config_ini w' = config_ini w) \<or>
   (\<exists>w' snippet. publish_map m w = (None, m, w') \<and>
      events w' = events w @
        [Request (timestamp_request (api_auth_code m) (map_id m) (strftime (clock w))),
         Request (publish_request (api_auth_code m) (map_id m)),
         FileWritten (html_map_output m) snippet] \<and>
      html_file w' = Some snippet \<and> config_ini w' = config_ini w)"
proof -
  obtain w1 where t: "set_last_update_timestamp m w = (None, m, w1)"
    and a: "after_request (timestamp_request (api_auth_code m) (map_id m) (strftime (clock w))) w w1"
    using set_last_update_timestamp_effect [of m w] by blast
  from a have e1: "events w1 = events w @
      [Request (timestamp_request (api_auth_code m) (map_id m) (strftime (clock w)))]"
    and c1: "config_ini w1 = config_ini w"
    by (simp_all add: after_request_def)
  have s: "publish_map m w = publish_post m w1"
    by (simp add: publish_map_def seq_def t)
  show ?thesis
    using publish_post_effect [of m w1] unfolding s e1 c1 by auto
qed

lemma run_map_update_effect:
  "(\<exists>e. run_map_update m w = (Some e, m, w)) \<or>
   (\<exists>e w'. run_map_update m w = (Some e, m, w') \<and>
      events w' = events w @ take 3 (update_events m w snippet0) \<and>
      config_ini w' = config_ini w) \<or>
   (\<exists>w' snippet. run_map_update m w = (None, m, w') \<and>
      events w' = events w @ update_events m w snippet \<and>
      html_file w' = Some snippet \<and> config_ini w' = config_ini w)"
proof -
  from update_map_data_effect [of m w] show ?thesis
  proof (elim disjE exE conjE)
    fix e assume "update_map_data m w = (Some e, m, w)"
    then show ?thesis by (simp add: run_map_update_def seq_def)
  next
    fix w1
    assume u: "update_map_data m w = (None, m, w1)"
      and a: "after_request (data_request (api_auth_code m) (map_id m)
                (county_results_of (csv_rows w))) w w1"
    from a have e1: "events w1 = events w @
        [Request (data_request (api_auth_code m) (map_id m) (county_results_of (csv_rows w)))]"
      and c1: "config_ini w1 = config_ini w" and k1: "clock w1 = clock w"
      by (simp_all add: after_request_def)
    have s: "run_map_update m w = publish_map m w1"
      by (simp add: run_map_update_def seq_def u)
    show ?thesis
      using publish_map_effect [of m w1] unfolding s e1 c1 k1
      by (auto simp: update_events_def)
  qed
qed

lemma create_choropleth_effect:
  "(\<exists>e m' w'. create_choropleth m w = (Some e, m', w') \<and>
      events w' = events w @ [Request (create_request (api_auth_code m))] \<and>
      api_auth_code m' = api_auth_code m \<and> config_ini w' = config_ini w \<and>
      html_file w' = html_file w) \<or>
   (\<exists>m' w'. create_choropleth m w = (None, m', w') \<and>
      events w' = events w @ [Request (create_request (api_auth_code m)), ConfigWritten] \<and>
      api_auth_code m' = api_auth_code m \<and> html_map_output m' = html_map_output m \<and>
      config_ini w' = config m' \<and>
      csv_file w' = csv_file w \<and> clock w' = clock w \<and> html_file w' = html_file w)"
  by (simp add: create_choropleth_def set_map_id_def send_def Let_def
      split: option.splits sum.splits json.splits)

lemma emitted_append [simp]: "events w' = events w @ es \<Longrightarrow> emitted w w' = es"
  by (simp add: emitted_def)

lemma emitted_same [simp]: "emitted w w = []"
  by (simp add: emitted_def)

lemma step_of_update_events:
  "map step_of (update_events m w snippet) = [PushData, StampTimestamp, Publish, WriteEmbedArtifact]"
  by (simp add: update_events_def data_request_def timestamp_request_def publish_request_def
      timestamp_payload_def configure_payload_def tooltip_payload_def)

lemma step_of_creation_events:
  "map step_of (creation_events m w snippet) =
     [Create, PersistIdentifier, Configure, SetTooltip, PushData, StampTimestamp, Publish,
      WriteEmbedArtifact]"
  by (simp add: creation_events_def step_of_update_events create_request_def
      configure_request_def tooltip_request_def configure_payload_def tooltip_payload_def)


text \<open>The creation workflow after its first step, on the object that step left.\<close>

lemma after_create_effect:
  defines "rest \<equiv> seq configure_map_settings (seq add_map_tooltip run_map_update)"
  shows "(\<exists>e w'. rest m w = (Some e, m, w') \<and>
      events w' = events w @
        [Request (configure_request (api_auth_code m) (map_id m)),
         Request (tooltip_request (api_auth_code m) (map_id m))] \<and>
      config_ini w' = config_ini w) \<or>
   (\<exists>e w'. rest m w = (Some e, m, w') \<and>
      events w' = events w @
        [Request (configure_request (api_auth_code m) (map_id m)),
         Request (tooltip_request (api_auth_code m) (map_id m))] @
        take 3 (update_events m w snippet0) \<and>
      config_ini w' = config_ini w) \<or>
   (\<exists>w' snippet. rest m w = (None, m, w') \<and>
      events w' = events w @
        [Request (configure_request (api_auth_code m) (map_id m)),
         Request (tooltip_request (api_auth_code m) (map_id m))] @
        update_events m w snippet \<and>
      html_file w' = Some snippet \<and> config_ini w' = config_ini w)"
proof -
  obtain w1 where c: "configure_map_settings m w = (None, m, w1)"
    and a1: "after_request (configure_request (api_auth_code m) (map_id m)) w w1"
    using configure_map_settings_effect [of m w] by blast
  obtain w2 where t: "add_map_tooltip m w1 = (None, m, w2)"
    and a2: "after_request (tooltip_request (api_auth_code m) (map_id m)) w1 w2"
    using add_map_tooltip_effect [of m w1] by blast
  from a1 a2 have e2: "events w2 = events w @
      [Request (configure_request (api_auth_code m) (map_id m)),
       Request (tooltip_request (api_auth_code m) (map_id m))]"
    and c2: "config_ini w2 = config_ini w" and k2: "clock w2 = clock w"
    and f2: "csv_file w2 = csv_file w"
    by (simp_all add: after_request_def)
  have u: "update_events m w2 = update_events m w"
    by (simp add: update_events_def k2 csv_rows_cong [OF f2] fun_eq_iff)
  have s: "rest m w = run_map_update m w2"
    by (simp add: rest_def seq_def c t)
  show ?thesis
    using run_map_update_effect [of m w2 snippet0] e2 c2 unfolding s u
    by (elim disjE exE conjE) auto
qed

lemma run_map_creation_unfold:
  "run_map_creation =
     seq create_choropleth (seq configure_map_settings (seq add_map_tooltip run_map_update))"
  by (simp add: run_map_creation_def run_map_update_def)

lemma run_map_creation_steps:
  "(case run_map_creation m w of (e, m', w') \<Rightarrow>
      take 1 (emitted w w') = [Request (create_request (api_auth_code m))] \<and>
      prefix (emitted w w') (creation_events m' w (written_snippet w')) \<and>
      (e = None \<longrightarrow> emitted w w' = creation_events m' w (written_snippet w')))"
proof -
  from create_choropleth_effect [of m w] show ?thesis
  proof (elim disjE exE conjE)
    fix e m' w'
    assume "create_choropleth m w = (Some e, m', w')"
      and "events w' = events w @ [Request (create_request (api_auth_code m))]"
      and "api_auth_code m' = api_auth_code m"
    then show ?thesis
      by (simp add: run_map_creation_unfold seq_def creation_events_def)
  next
    fix m1 w1
    assume c: "create_choropleth m w = (None, m1, w1)"
      and e1: "events w1 = events w @ [Request (create_request (api_auth_code m)), ConfigWritten]"
      and a1: "api_auth_code m1 = api_auth_code m"
      and f1: "csv_file w1 = csv_file w" and k1: "clock w1 = clock w"
    have u: "update_events m1 w1 = update_events m1 w"
      by (simp add: update_events_def k1 csv_rows_cong [OF f1] fun_eq_iff)
    have s: "run_map_creation m w =
        seq configure_map_settings (seq add_map_tooltip run_map_update) m1 w1"
      by (simp add: run_map_creation_unfold seq_def [of create_choropleth] c)
    show ?thesis
      using after_create_effect [of m1 w1 "[]"] e1 unfolding s u
      by (elim disjE exE conjE)
         (auto simp: creation_events_def a1 written_snippet_def update_events_def)
  qed
qed

section \<open>The order of the steps\<close>

text \<open>
  C6. Whatever the remote service answers and whatever the files hold, what
  \<^verbatim>\<open>run_map_creation\<close> sends and writes starts with the create request and is an initial
  part of the fixed sequence create, persist the identifier, configure, tooltip, data,
  timestamp, publish, write the artifact; a run that returns normally performs the whole
  sequence. So create precedes configure, tooltip and data, and publish is the last
  request before the artifact is written, in every execution.
\<close>

theorem runCreate_step_order:
  "(case run_map_creation m w of (e, m', w') \<Rightarrow>
      take 1 (emitted w w') = [Request (create_request (api_auth_code m))] \<and>
      prefix (emitted w w') (creation_events m' w (written_snippet w')) \<and>
      (e = None \<longrightarrow> emitted w w' = creation_events m' w (written_snippet w')) \<and>
      map step_of (creation_events m' w (written_snippet w')) =
        [Create, PersistIdentifier, Configure, SetTooltip, PushData, StampTimestamp, Publish,
         WriteEmbedArtifact])"
  using run_map_creation_steps [where m = m and w = w]
  by (simp add: step_of_creation_events split: prod.splits)

theorem runCreate_step_order_witness:
  "fst (run_map_creation sample_mapper sample_world) = None \<and>
   map step_of (emitted sample_world (snd (snd (run_map_creation sample_mapper sample_world)))) =
     [Create, PersistIdentifier, Configure, SetTooltip, PushData, StampTimestamp, Publish,
      WriteEmbedArtifact]"
proof -
  obtain e m' w' where r: "run_map_creation sample_mapper sample_world = (e, m', w')"
    by (cases "run_map_creation sample_mapper sample_world")
  have n: "fst (run_map_creation sample_mapper sample_world) = None"
    by code_simp
  with r have "e = None" by simp
  with runCreate_step_order [where m = sample_mapper and w = sample_world] r
  have "map step_of (emitted sample_world w') =
     [Create, PersistIdentifier, Configure, SetTooltip, PushData, StampTimestamp, Publish,
      WriteEmbedArtifact]"
    by simp
  with n r show ?thesis by simp
qed

section \<open>The update workflow\<close>




section \<open>The identifier is only written by create\<close>

text \<open>
  C10. Configure, tooltip, data, timestamp and publish return the object they were
  given (its \<^verbatim>\<open>map_id\<close> and its configuration included) and leave the configuration
  file as it was, whatever their outcome; and each request they send is built from the
  \<^verbatim>\<open>map_id\<close> of that object.
\<close>

theorem identifier_frame:
  "fst (snd (configure_map_settings m w)) = m \<and>
   config_ini (snd (snd (configure_map_settings m w))) = config_ini w \<and>
   emitted w (snd (snd (configure_map_settings m w))) =
     [Request (configure_request (api_auth_code m) (map_id m))] \<and>
   fst (snd (add_map_tooltip m w)) = m \<and>
   config_ini (snd (snd (add_map_tooltip m w))) = config_ini w \<and>
   emitted w (snd (snd (add_map_tooltip m w))) =
     [Request (tooltip_request (api_auth_code m) (map_id m))] \<and>
   fst (snd (update_map_data m w)) = m \<and>
   config_ini (snd (snd (update_map_data m w))) = config_ini w \<and>
   prefix (emitted w (snd (snd (update_map_data m w))))
     [Request (data_request (api_auth_code m) (map_id m) (county_results_of (csv_rows w)))] \<and>
   fst (snd (set_last_update_timestamp m w)) = m \<and>
   config_ini (snd (snd (set_last_update_timestamp m w))) = config_ini w \<and>
   emitted w (snd (snd (set_last_update_timestamp m w))) =
     [Request (timestamp_request (api_auth_code m) (map_id m) (strftime (clock w)))] \<and>
   fst (snd (publish_map m w)) = m \<and>
   config_ini (snd (snd (publish_map m w))) = config_ini w \<and>
   prefix (emitted w (snd (snd (publish_map m w))))
     [Request (timestamp_request (api_auth_code m) (map_id m) (strftime (clock w))),
      Request (publish_request (api_auth_code m) (map_id m)),
      FileWritten (html_map_output m) (written_snippet (snd (snd (publish_map m w))))]"
proof -
  have c: "fst (snd (configure_map_settings m w)) = m \<and>
      config_ini (snd (snd (configure_map_settings m w))) = config_ini w \<and>
      emitted w (snd (snd (configure_map_settings m w))) =
        [Request (configure_request (api_auth_code m) (map_id m))]"
    using configure_map_settings_effect [of m w] by (auto simp: after_request_def)
  have t: "fst (snd (add_map_tooltip m w)) = m \<and>
      config_ini (snd (snd (add_map_tooltip m w))) = config_ini w \<and>
      emitted w (snd (snd (add_map_tooltip m w))) =
        [Request (tooltip_request (api_auth_code m) (map_id m))]"
    using add_map_tooltip_effect [of m w] by (auto simp: after_request_def)
  have u: "fst (snd (update_map_data m w)) = m \<and>
      config_ini (snd (snd (update_map_data m w))) = config_ini w \<and>
      prefix (emitted w (snd (snd (update_map_data m w))))
        [Request (data_request (api_auth_code m) (map_id m) (county_results_of (csv_rows w)))]"
    using update_map_data_effect [of m w] by (auto simp: after_request_def)
  have s: "fst (snd (set_last_update_timestamp m w)) = m \<and>
      config_ini (snd (snd (set_last_update_timestamp m w))) = config_ini w \<and>
      emitted w (snd (snd (set_last_update_timestamp m w))) =
        [Request (timestamp_request (api_auth_code m) (map_id m) (strftime (clock w)))]"
    using set_last_update_timestamp_effect [of m w] by (auto simp: after_request_def)
  have p: "fst (snd (publish_map m w)) = m \<and>
      config_ini (snd (snd (publish_map m w))) = config_ini w \<and>
      prefix (emitted w (snd (snd (publish_map m w))))
        [Request (timestamp_request (api_auth_code m) (map_id m) (strftime (clock w))),
         Request (publish_request (api_auth_code m) (map_id m)),
         FileWritten (html_map_output m) (written_snippet (snd (snd (publish_map m w))))]"
    using publish_map_effect [of m w] by (auto simp: written_snippet_def)
  from c t u s p show ?thesis by blast
qed

section \<open>Failing remote calls\<close>

text \<open>
  C4, at a create call the service refuses (status 401, a JSON error body without an
  identifier). \<^verbatim>\<open>create_choropleth\<close> logs the HTTP error, goes on to read
  \<^verbatim>\<open>response.json()['id']\<close> and raises \<^verbatim>\<open>KeyError\<close>; the exception ends
  \<^verbatim>\<open>run_map_creation\<close>, whose only request is the create request.
\<close>

theorem refused_create_ends_run:
  "fst (run_map_creation sample_mapper refused_world) = Some (KeyError ''id'') \<and>
   map step_of (emitted refused_world (snd (snd (run_map_creation sample_mapper refused_world)))) =
     [Create] \<and>
   map log_msg (log (snd (snd (run_map_creation sample_mapper refused_world)))) =
     [''Map Create Failed: error was: %s'', ''Created new choropleth with map_id: %s'']"
  by code_simp

text \<open>
  C3, at the same service. Both workflows let an exception escape, and the process
  exits with status 1: the creation workflow at its first step, the update workflow
  at the end of \<^verbatim>\<open>publish_map\<close>, where the snippet is read from a response that has
  none.
\<close>

theorem refused_calls_escape:
  "fst (main ''create'' refused_world) = 1 \<and>
   fst (main ''update'' refused_world) = 1 \<and>
   fst (run_map_update sample_mapper refused_world) = Some (KeyError ''data'') \<and>
   map step_of (emitted refused_world (snd (snd (run_map_update sample_mapper refused_world)))) =
     [PushData, StampTimestamp, Publish] \<and>
   html_file (snd (snd (run_map_update sample_mapper refused_world))) = Some ''<old/>''"
  by code_simp

section \<open>An unknown run type\<close>

text \<open>
  C8. With a configuration and an environment that let the process start, a run type
  other than \<open>create\<close> and \<open>update\<close> sends nothing, writes nothing and logs nothing:
  the process exits with status 0 and the world is as it was.
\<close>

theorem unknown_mode_no_action:
  assumes "run_type \<noteq> ''create''" and "run_type \<noteq> ''update''" and "startup w = Inr m"
  shows "main run_type w = (0, w)"
  using assms by (simp add: main_def dispatch_def exit_status_def)

lemma startup_sample: "startup sample_world = Inr sample_mapper"
  by (simp add: startup_def init_mapper_def config_get_def sample_world_def sample_config_def
      sample_mapper_def level_names_def os_path_join_def)

theorem unknown_mode_no_action_witness:
  "''delete'' \<noteq> ''create'' \<and> ''delete'' \<noteq> ''update'' \<and>
   startup sample_world = Inr sample_mapper \<and> main ''delete'' sample_world = (0, sample_world)"
proof -
  have a: "''delete'' \<noteq> ''create''" and b: "''delete'' \<noteq> ''update''"
    by simp_all
  from unknown_mode_no_action [OF a b startup_sample] a b startup_sample
  show ?thesis by blast
qed

section \<open>The identifier after a successful create\<close>











section \<open>The reader on a line of cells\<close>























end
